theory Spec2Isabelle
  imports Complex_Main "HOL-Library.Log_Nat"
begin

section \<open>Python values\<close>

text \<open>
  The collectors of \<^verbatim>\<open>cpuinfo_app\<close> handle dynamically typed data: whatever a probe of the
  platform returns. The embedding therefore works on a datatype of Python values.

  A float is a binary64 value: a finite one is given by its exact rational value, and the two
  infinities and NaN are values of their own (the sign of zero is not distinguished).
  Strings are ASCII text as lists of characters. An object with attributes (the named
  tuples that \<^verbatim>\<open>psutil\<close> and \<^verbatim>\<open>platform\<close> return) is the list of its attributes; a dict
  is the list of its items in insertion order.
\<close>

datatype pyfloat = Fin rat | PInf | NInf | NaN

datatype pyval =
    PNone
  | PBool bool
  | PInt int
  | PFloat pyfloat
  | PStr string
  | PList "pyval list"
  | PDict "(string \<times> pyval) list"
  | PObj "(string \<times> pyval) list"

text \<open>
  Exceptions derived from \<^verbatim>\<open>Exception\<close>: the ones the code under study can raise by itself,
  and \<open>ProbeError\<close> for any other one raised inside a probe of the platform.
\<close>

datatype pyexn = AttributeError | TypeError | ValueError | OverflowError | OSError
  | ProbeError string

type_synonym 'a result = "pyexn + 'a"

text \<open>Truth value of an object, as \<^verbatim>\<open>if x:\<close> and \<^verbatim>\<open>x or y\<close> test it.\<close>

fun truthy :: "pyval \<Rightarrow> bool" where
  "truthy PNone = False"
| "truthy (PBool b) = b"
| "truthy (PInt n) = (n \<noteq> 0)"
| "truthy (PFloat (Fin q)) = (q \<noteq> 0)"
| "truthy (PFloat _) = True"
| "truthy (PStr s) = (s \<noteq> [])"
| "truthy (PList xs) = (xs \<noteq> [])"
| "truthy (PDict kvs) = (kvs \<noteq> [])"
| "truthy (PObj attrs) = (attrs \<noteq> [])"

text \<open>
  \<^verbatim>\<open>hasattr(x, name)\<close> and \<^verbatim>\<open>x.name\<close> for the attribute names the collectors read
  (\<^verbatim>\<open>total\<close>, \<^verbatim>\<open>available\<close>, \<^verbatim>\<open>current\<close>, \<^verbatim>\<open>min\<close>, \<^verbatim>\<open>max\<close>, \<^verbatim>\<open>system\<close>, \<^verbatim>\<open>release\<close>,
  \<^verbatim>\<open>version\<close>, \<^verbatim>\<open>processor\<close>): none of the built-in types has one of them.
\<close>

fun hasattr :: "pyval \<Rightarrow> string \<Rightarrow> bool" where
  "hasattr (PObj attrs) name = (map_of attrs name \<noteq> None)"
| "hasattr _ name = False"

fun getattr :: "pyval \<Rightarrow> string \<Rightarrow> pyval result" where
  "getattr (PObj attrs) name =
     (case map_of attrs name of None \<Rightarrow> Inl AttributeError | Some v \<Rightarrow> Inr v)"
| "getattr _ name = Inl AttributeError"

text \<open>\<^verbatim>\<open>isinstance(x, int)\<close> (\<^verbatim>\<open>bool\<close> is a subclass of \<^verbatim>\<open>int\<close>) and
  \<^verbatim>\<open>isinstance(x, (int, float))\<close>.\<close>

fun isinstance_int :: "pyval \<Rightarrow> bool" where
  "isinstance_int (PBool _) = True"
| "isinstance_int (PInt _) = True"
| "isinstance_int _ = False"

fun isinstance_int_float :: "pyval \<Rightarrow> bool" where
  "isinstance_int_float (PBool _) = True"
| "isinstance_int_float (PInt _) = True"
| "isinstance_int_float (PFloat _) = True"
| "isinstance_int_float _ = False"

section \<open>Text\<close>

text \<open>The ASCII characters for which \<^verbatim>\<open>str.isspace\<close> holds; \<^verbatim>\<open>str.strip\<close>,
  \<^verbatim>\<open>str.split\<close> and the pattern \<^verbatim>\<open>\s\<close> all use this class.\<close>

definition is_space :: "char \<Rightarrow> bool" where
  "is_space c \<longleftrightarrow> (let n = (of_char c :: nat) in (9 \<le> n \<and> n \<le> 13) \<or> (28 \<le> n \<and> n \<le> 32))"

definition strip :: "string \<Rightarrow> string" where
  "strip s = rev (dropWhile is_space (rev (dropWhile is_space s)))"

text \<open>\<^verbatim>\<open>s.split()\<close>: the maximal runs of non-whitespace characters.\<close>

fun split_ws_aux :: "string \<Rightarrow> string \<Rightarrow> string list" where
  "split_ws_aux cur [] = (if cur = [] then [] else [rev cur])"
| "split_ws_aux cur (c # cs) =
     (if is_space c then (if cur = [] then split_ws_aux [] cs else rev cur # split_ws_aux [] cs)
      else split_ws_aux (c # cur) cs)"

definition split_ws :: "string \<Rightarrow> string list" where
  "split_ws s = split_ws_aux [] s"

definition lower_char :: "char \<Rightarrow> char" where
  "lower_char c = (let n = (of_char c :: nat) in if 65 \<le> n \<and> n \<le> 90 then char_of (n + 32) else c)"

definition upper_char :: "char \<Rightarrow> char" where
  "upper_char c = (let n = (of_char c :: nat) in if 97 \<le> n \<and> n \<le> 122 then char_of (n - 32) else c)"

definition lower :: "string \<Rightarrow> string" where
  "lower s = map lower_char s"

definition is_digit :: "char \<Rightarrow> bool" where
  "is_digit c \<longleftrightarrow> (let n = (of_char c :: nat) in 48 \<le> n \<and> n \<le> 57)"

definition digit_char :: "nat \<Rightarrow> char" where
  "digit_char d = char_of (48 + d)"

definition digit_val :: "char \<Rightarrow> nat" where
  "digit_val c = of_char c - 48"

text \<open>Decimal text of a natural number, as \<^verbatim>\<open>str(n)\<close> and \<^verbatim>\<open>f"{n}"\<close> give it.\<close>

fun str_nat :: "nat \<Rightarrow> string" where
  "str_nat n = (if n < 10 then [digit_char n] else str_nat (n div 10) @ [digit_char (n mod 10)])"

declare str_nat.simps [simp del]

definition str_int :: "int \<Rightarrow> string" where
  "str_int i = (if i < 0 then CHR ''-'' # str_nat (nat (- i)) else str_nat (nat i))"

text \<open>\<^verbatim>\<open>f"{n:02}"\<close>: at least two characters, padded with zeros on the left.\<close>

definition pad2 :: "int \<Rightarrow> string" where
  "pad2 i = (if 0 \<le> i \<and> i < 10 then CHR ''0'' # str_int i else str_int i)"

section \<open>Floats\<close>

text \<open>
  Python's \<^verbatim>\<open>float\<close> is IEEE 754 binary64. \<open>fl\<close> rounds an exact rational result to the
  nearest binary64 value, ties to the even significand: 53 significant bits, the unit in the
  last place never below \<open>2 powi (- 1074)\<close>, and overflow to an infinity when the rounded
  value reaches \<open>2 ^ 1024\<close> in magnitude. Every arithmetic operation on floats is the exact operation
  followed by \<open>fl\<close>.
\<close>

definition round_half_even :: "rat \<Rightarrow> int" where
  "round_half_even x =
     (let f = \<lfloor>x\<rfloor>; d = x - of_int f
      in if d < 1 / 2 then f else if 1 / 2 < d then f + 1 else if even f then f else f + 1)"

text \<open>For \<open>0 < q\<close>, the integer \<open>e\<close> with \<open>2 powi e \<le> q < 2 powi (e + 1)\<close>.\<close>

definition floor_log2 :: "rat \<Rightarrow> int" where
  "floor_log2 q =
     (let e = bitlen (fst (quotient_of q)) - bitlen (snd (quotient_of q))
      in if 2 powi e \<le> q then e else e - 1)"

definition overflow_threshold :: rat where
  "overflow_threshold = 2 ^ 1024"

definition fl :: "rat \<Rightarrow> pyfloat" where
  "fl q =
     (if q = 0 then Fin 0
      else let e = max (floor_log2 \<bar>q\<bar>) (- 1022);
               u = 2 powi (e - 52);
               r = of_int (round_half_even (q / u)) * u
           in if overflow_threshold \<le> r then PInf
              else if r \<le> - overflow_threshold then NInf else Fin r)"


text \<open>\<^verbatim>\<open>float(n)\<close> of an int raises \<^verbatim>\<open>OverflowError\<close> where the int is too large.\<close>

definition float_of_int :: "int \<Rightarrow> pyfloat result" where
  "float_of_int n = (case fl (of_int n) of Fin r \<Rightarrow> Inr (Fin r) | _ \<Rightarrow> Inl OverflowError)"

text \<open>\<^verbatim>\<open>float(x)\<close> for a value of type \<^verbatim>\<open>bool\<close>, \<^verbatim>\<open>int\<close> or \<^verbatim>\<open>float\<close> (the code calls it
  on no other).\<close>

fun to_float :: "pyval \<Rightarrow> pyfloat result" where
  "to_float (PBool b) = Inr (Fin (if b then 1 else 0))"
| "to_float (PInt n) = float_of_int n"
| "to_float (PFloat f) = Inr f"
| "to_float _ = Inl TypeError"

text \<open>\<^verbatim>\<open>x < y\<close>, \<^verbatim>\<open>x - y\<close>, \<^verbatim>\<open>x * y\<close> and \<^verbatim>\<open>x / y\<close> on floats (the code divides by
  \<^verbatim>\<open>1024.0\<close> only, so a zero divisor does not occur).\<close>

fun float_lt :: "pyfloat \<Rightarrow> pyfloat \<Rightarrow> bool" where
  "float_lt NaN _ = False"
| "float_lt _ NaN = False"
| "float_lt (Fin a) (Fin b) = (a < b)"
| "float_lt NInf NInf = False"
| "float_lt NInf _ = True"
| "float_lt PInf _ = False"
| "float_lt (Fin a) PInf = True"
| "float_lt (Fin a) NInf = False"

fun float_neg :: "pyfloat \<Rightarrow> pyfloat" where
  "float_neg (Fin a) = Fin (- a)"
| "float_neg PInf = NInf"
| "float_neg NInf = PInf"
| "float_neg NaN = NaN"

fun float_add :: "pyfloat \<Rightarrow> pyfloat \<Rightarrow> pyfloat" where
  "float_add NaN _ = NaN"
| "float_add _ NaN = NaN"
| "float_add (Fin a) (Fin b) = fl (a + b)"
| "float_add PInf NInf = NaN"
| "float_add NInf PInf = NaN"
| "float_add PInf _ = PInf"
| "float_add NInf _ = NInf"
| "float_add (Fin a) f = f"

definition float_sub :: "pyfloat \<Rightarrow> pyfloat \<Rightarrow> pyfloat" where
  "float_sub a b = float_add a (float_neg b)"

fun float_mul :: "pyfloat \<Rightarrow> pyfloat \<Rightarrow> pyfloat" where
  "float_mul NaN _ = NaN"
| "float_mul _ NaN = NaN"
| "float_mul (Fin a) (Fin b) = fl (a * b)"
| "float_mul (Fin a) f = (if a = 0 then NaN else if 0 < a then f else float_neg f)"
| "float_mul f (Fin b) = (if b = 0 then NaN else if 0 < b then f else float_neg f)"
| "float_mul PInf f = f"
| "float_mul NInf f = float_neg f"

fun float_div :: "pyfloat \<Rightarrow> pyfloat \<Rightarrow> pyfloat" where
  "float_div NaN _ = NaN"
| "float_div _ NaN = NaN"
| "float_div (Fin a) (Fin b) = fl (a / b)"
| "float_div (Fin a) _ = Fin 0"
| "float_div f (Fin b) = (if 0 \<le> b then f else float_neg f)"
| "float_div _ _ = NaN"

text \<open>\<^verbatim>\<open>int(x)\<close> of a float truncates towards zero and raises on a non-finite value.\<close>

fun int_of_float :: "pyfloat \<Rightarrow> int result" where
  "int_of_float (Fin q) = Inr (if 0 \<le> q then \<lfloor>q\<rfloor> else \<lceil>q\<rceil>)"
| "int_of_float NaN = Inl ValueError"
| "int_of_float _ = Inl OverflowError"

text \<open>\<^verbatim>\<open>f"{x:.2f}"\<close>: the exact value, correctly rounded to two decimals (ties to even).\<close>

fun fmt_2f :: "pyfloat \<Rightarrow> string" where
  "fmt_2f (Fin q) =
     (let n = nat (round_half_even (\<bar>q\<bar> * 100))
      in (if q < 0 then ''-'' else []) @ str_nat (n div 100) @ ''.''
           @ [digit_char (n mod 100 div 10), digit_char (n mod 10)])"
| "fmt_2f PInf = ''inf''"
| "fmt_2f NInf = ''-inf''"
| "fmt_2f NaN = ''nan''"

text \<open>\<^verbatim>\<open>x < 0\<close> for a value of type \<^verbatim>\<open>bool\<close>, \<^verbatim>\<open>int\<close> or \<^verbatim>\<open>float\<close>.\<close>

fun lt_zero :: "pyval \<Rightarrow> bool" where
  "lt_zero (PInt n) = (n < 0)"
| "lt_zero (PFloat f) = float_lt f (Fin 0)"
| "lt_zero _ = False"

section \<open>Regular expressions\<close>

text \<open>
  The collectors use three patterns of Python's \<^verbatim>\<open>re\<close> module. A pattern is a term of the
  datatype \<open>rx\<close>, and \<open>ms\<close> is a backtracking matcher in the style of \<^verbatim>\<open>re\<close>: from a
  position in the text it returns every way to match, in the order in which backtracking
  tries them (a greedy repetition tries the longest run first), so the head of the list is
  the match that \<^verbatim>\<open>re\<close> reports. A position is the text before it (reversed) and the text
  after it, together with the groups captured so far.
\<close>

definition newline :: char where
  "newline = CHR 0x0A"

datatype rx =
    Chr char            \<comment> \<open>a literal character\<close>
  | Cls "char \<Rightarrow> bool"   \<comment> \<open>a character class\<close>
  | Cat rx rx           \<comment> \<open>concatenation\<close>
  | Star rx             \<comment> \<open>greedy \<^verbatim>\<open>*\<close>\<close>
  | Plus rx             \<comment> \<open>greedy \<^verbatim>\<open>+\<close>\<close>
  | Opt rx              \<comment> \<open>greedy \<^verbatim>\<open>?\<close>\<close>
  | Grp nat rx          \<comment> \<open>capturing group with its number\<close>
  | Bol                 \<comment> \<open>\<^verbatim>\<open>^\<close> without \<^verbatim>\<open>MULTILINE\<close>\<close>
  | Eol                 \<comment> \<open>\<^verbatim>\<open>$\<close> without \<^verbatim>\<open>MULTILINE\<close>\<close>
  | BolM                \<comment> \<open>\<^verbatim>\<open>^\<close> with \<^verbatim>\<open>MULTILINE\<close>\<close>
  | EolM                \<comment> \<open>\<^verbatim>\<open>$\<close> with \<^verbatim>\<open>MULTILINE\<close>\<close>

record mstate =
  consumed :: string
  remaining :: string
  groups :: "(nat \<times> string) list"

definition step :: "mstate \<Rightarrow> mstate" where
  "step st = st\<lparr>consumed := hd (remaining st) # consumed st, remaining := tl (remaining st)\<rparr>"

definition progress :: "mstate \<Rightarrow> mstate \<Rightarrow> bool" where
  "progress st st' \<longleftrightarrow> length (remaining st') < length (remaining st)"

text \<open>Greedy repetition of a matcher \<open>f\<close>: one more round of \<open>f\<close> that consumes text, then
  the rest of the repetition; failing that, stop here. The fuel bounds the number of rounds
  by the length of the text.\<close>

primrec star :: "nat \<Rightarrow> (mstate \<Rightarrow> mstate list) \<Rightarrow> mstate \<Rightarrow> mstate list" where
  "star 0 f st = [st]"
| "star (Suc n) f st = concat (map (star n f) (filter (progress st) (f st))) @ [st]"

definition captured :: "mstate \<Rightarrow> mstate \<Rightarrow> string" where
  "captured st st' = rev (take (length (consumed st') - length (consumed st)) (consumed st'))"

primrec ms :: "rx \<Rightarrow> mstate \<Rightarrow> mstate list" where
  "ms (Chr c) = (\<lambda>st. if remaining st \<noteq> [] \<and> hd (remaining st) = c then [step st] else [])"
| "ms (Cls P) = (\<lambda>st. if remaining st \<noteq> [] \<and> P (hd (remaining st)) then [step st] else [])"
| "ms (Cat r1 r2) = (\<lambda>st. concat (map (ms r2) (ms r1 st)))"
| "ms (Star r) = (\<lambda>st. star (length (remaining st)) (ms r) st)"
| "ms (Plus r) = (\<lambda>st. concat (map (\<lambda>st'. star (length (remaining st')) (ms r) st') (ms r st)))"
| "ms (Opt r) = (\<lambda>st. ms r st @ [st])"
| "ms (Grp n r) = (\<lambda>st. map (\<lambda>st'. st'\<lparr>groups := (n, captured st st') # groups st'\<rparr>) (ms r st))"
| "ms Bol = (\<lambda>st. if consumed st = [] then [st] else [])"
| "ms Eol = (\<lambda>st. if remaining st = [] \<or> remaining st = [newline] then [st] else [])"
| "ms BolM = (\<lambda>st. if consumed st = [] \<or> hd (consumed st) = newline then [st] else [])"
| "ms EolM = (\<lambda>st. if remaining st = [] \<or> hd (remaining st) = newline then [st] else [])"

text \<open>A literal string is the concatenation of its characters.\<close>

fun Lit :: "string \<Rightarrow> rx \<Rightarrow> rx" where
  "Lit [] r = r"
| "Lit (c # cs) r = Cat (Chr c) (Lit cs r)"

text \<open>\<^verbatim>\<open>re.match\<close> tries the start of the text only; \<^verbatim>\<open>re.search\<close> tries every position
  from left to right and reports the first that matches. Both give the groups of the match.\<close>

definition re_match :: "rx \<Rightarrow> string \<Rightarrow> (nat \<times> string) list option" where
  "re_match r s =
     (case ms r \<lparr>consumed = [], remaining = s, groups = []\<rparr> of
        [] \<Rightarrow> None | st # _ \<Rightarrow> Some (groups st))"

fun re_scan :: "rx \<Rightarrow> string \<Rightarrow> string \<Rightarrow> (nat \<times> string) list option" where
  "re_scan r bef [] =
     (case ms r \<lparr>consumed = bef, remaining = [], groups = []\<rparr> of
        [] \<Rightarrow> None | st # _ \<Rightarrow> Some (groups st))"
| "re_scan r bef (c # cs) =
     (case ms r \<lparr>consumed = bef, remaining = c # cs, groups = []\<rparr> of
        [] \<Rightarrow> re_scan r (c # bef) cs | st # _ \<Rightarrow> Some (groups st))"

definition re_search :: "rx \<Rightarrow> string \<Rightarrow> (nat \<times> string) list option" where
  "re_search r s = re_scan r [] s"

text \<open>\<^verbatim>\<open>match.group(n)\<close> for a group that took part in the match.\<close>

definition match_group :: "(nat \<times> string) list \<Rightarrow> nat \<Rightarrow> string" where
  "match_group gs n = (case map_of gs n of None \<Rightarrow> [] | Some s \<Rightarrow> s)"

text \<open>\<^verbatim>\<open>.\<close> matches every character but a newline.\<close>

definition dot :: "char \<Rightarrow> bool" where
  "dot c \<longleftrightarrow> c \<noteq> newline"

text \<open>The pattern \<^verbatim>\<open>^key\s*:\s*(.+)$\<close> with \<^verbatim>\<open>re.MULTILINE\<close>, for the keys
  \<^verbatim>\<open>model name\<close>, \<^verbatim>\<open>flags\<close> and \<^verbatim>\<open>Features\<close>.\<close>

definition key_line_re :: "string \<Rightarrow> rx" where
  "key_line_re key =
     Cat BolM (Lit key (Cat (Star (Cls is_space)) (Cat (Chr CHR '':'')
       (Cat (Star (Cls is_space)) (Cat (Grp 1 (Plus (Cls dot))) EolM)))))"

text \<open>The pattern \<^verbatim>\<open>^(\d+(?:\.\d+)?)([KMG])$\<close> with \<^verbatim>\<open>re.IGNORECASE\<close>: the class
  \<^verbatim>\<open>[KMG]\<close> then holds the lower-case letters too.\<close>

definition is_unit_letter :: "char \<Rightarrow> bool" where
  "is_unit_letter c \<longleftrightarrow> upper_char c \<in> set ''KMG''"

definition cache_size_re :: rx where
  "cache_size_re =
     Cat Bol (Cat (Grp 1 (Cat (Plus (Cls is_digit)) (Opt (Cat (Chr CHR ''.'') (Plus (Cls is_digit))))))
       (Cat (Grp 2 (Cls is_unit_letter)) Eol))"

section \<open>The helpers of \<^verbatim>\<open>utils.py\<close>\<close>

definition UNKNOWN :: pyval where
  "UNKNOWN = PStr ''N/A''"

text \<open>
  \<^verbatim>\<open>safe_call(func, default)\<close>: the call of a zero-argument operation either returns a value or
  raises an exception derived from \<^verbatim>\<open>Exception\<close>; \<^verbatim>\<open>except Exception\<close> catches every one
  of them.
\<close>

definition safe_call :: "(unit \<Rightarrow> 'a result) \<Rightarrow> 'a \<Rightarrow> 'a" where
  "safe_call func dflt = (case func () of Inl e \<Rightarrow> dflt | Inr v \<Rightarrow> v)"

text \<open>\<^verbatim>\<open>format_bytes\<close>: the loop over the five units, then the label \<^verbatim>\<open>PB\<close>.\<close>

fun format_bytes_loop :: "pyfloat \<Rightarrow> string list \<Rightarrow> string" where
  "format_bytes_loop sz [] = fmt_2f sz @ '' PB''"
| "format_bytes_loop sz (unit # units) =
     (if float_lt sz (Fin 1024) then fmt_2f sz @ '' '' @ unit
      else format_bytes_loop (float_div sz (Fin 1024)) units)"

definition format_bytes :: "pyval \<Rightarrow> pyval result" where
  "format_bytes num_bytes =
     (if \<not> isinstance_int_float num_bytes \<or> lt_zero num_bytes then Inr UNKNOWN
      else case to_float num_bytes of
             Inl e \<Rightarrow> Inl e
 | Inr sz \<Rightarrow>
               Inr (PStr (format_bytes_loop sz [''B'', ''KB'', ''MB'', ''GB'', ''TB''])))"

text \<open>\<^verbatim>\<open>int(x)\<close> for a value of type \<^verbatim>\<open>bool\<close>, \<^verbatim>\<open>int\<close> or \<^verbatim>\<open>float\<close>.\<close>

fun to_int :: "pyval \<Rightarrow> int result" where
  "to_int (PBool b) = Inr (if b then 1 else 0)"
| "to_int (PInt n) = Inr n"
| "to_int (PFloat f) = int_of_float f"
| "to_int _ = Inl TypeError"

text \<open>The day suffix of the source is the Cyrillic letter de, here its two UTF-8 bytes.\<close>

definition day_suffix :: string where
  "day_suffix = [CHR 0xD0, CHR 0xB4]"

definition hms :: "int \<Rightarrow> int \<Rightarrow> int \<Rightarrow> string" where
  "hms hours minutes secs = pad2 hours @ '':'' @ pad2 minutes @ '':'' @ pad2 secs"

definition format_duration :: "pyval \<Rightarrow> pyval result" where
  "format_duration seconds =
     (if \<not> isinstance_int_float seconds \<or> lt_zero seconds then Inr UNKNOWN
      else case to_int seconds of
             Inl e \<Rightarrow> Inl e
           | Inr total' \<Rightarrow>
               (let days = total' div 86400; remainder = total' mod 86400;
                    hours = remainder div 3600; remainder' = remainder mod 3600;
                    minutes = remainder' div 60; secs = remainder' mod 60
                in if 0 < days
                   then Inr (PStr (str_int days @ day_suffix @ '' '' @ hms hours minutes secs))
                   else Inr (PStr (hms hours minutes secs))))"

section \<open>The platform\<close>

text \<open>
  What the collectors read from outside: every probe of \<^verbatim>\<open>platform\<close>, \<^verbatim>\<open>socket\<close> and
  \<^verbatim>\<open>psutil\<close> either raises or returns some value, the clock gives a finite time, and the
  file system holds the pseudo-file \<^verbatim>\<open>/proc/cpuinfo\<close> and the entries \<^verbatim>\<open>index*\<close> of the cache
  directory, in the order in which \<^verbatim>\<open>glob\<close> enumerates them. A file is missing, or exists
  and cannot be read, or has a text.
\<close>

datatype fsfile = Missing | Unreadable | Content string

fun file_exists :: "fsfile \<Rightarrow> bool" where
  "file_exists Missing = False"
| "file_exists _ = True"

fun read_text :: "fsfile \<Rightarrow> string result" where
  "read_text (Content s) = Inr s"
| "read_text _ = Inl OSError"

record index_entry =
  level_file :: fsfile
  size_file :: fsfile

record env =
  platform_processor :: "pyval result"
  platform_uname :: "pyval result"
  platform_machine :: "pyval result"
  platform_system :: "pyval result"
  platform_release :: "pyval result"
  platform_version :: "pyval result"
  socket_gethostname :: "pyval result"
  psutil_cpu_count :: "bool \<Rightarrow> pyval result"
  psutil_cpu_freq :: "pyval result"
  psutil_cpu_percent :: "pyval result"
  psutil_boot_time :: "pyval result"
  psutil_virtual_memory :: "pyval result"
  time_time :: rat
  cpuinfo :: fsfile
  cache_dir :: "index_entry list option"

text \<open>Sequencing of computations that may raise.\<close>

definition bnd :: "'a result \<Rightarrow> ('a \<Rightarrow> 'b result) \<Rightarrow> 'b result" where
  "bnd m f = (case m of Inl e \<Rightarrow> Inl e | Inr v \<Rightarrow> f v)"

section \<open>The CPU collector of \<^verbatim>\<open>providers.py\<close>\<close>

definition GENERIC_CPU_NAMES :: "string set" where
  "GENERIC_CPU_NAMES = {''x86_64'', ''amd64'', ''arm64'', ''aarch64'', ''i386'', ''i686''}"

text \<open>The \<^verbatim>\<open>try\<close> block of \<^verbatim>\<open>_cpu_brand\<close>:
  \<^verbatim>\<open>platform.processor() or platform.uname().processor\<close>, and the empty string on any
  exception.\<close>

definition cpu_brand_name :: "env \<Rightarrow> pyval" where
  "cpu_brand_name env =
     safe_call (\<lambda>_. bnd (platform_processor env) (\<lambda>p.
        if truthy p then Inr p
        else bnd (platform_uname env) (\<lambda>u. getattr u ''processor''))) (PStr [])"

text \<open>The second half of \<^verbatim>\<open>_cpu_brand\<close>: the \<^verbatim>\<open>model name\<close> line of the pseudo-file.\<close>

definition cpu_brand_fallback :: "env \<Rightarrow> pyval" where
  "cpu_brand_fallback env =
     (if file_exists (cpuinfo env)
      then (case read_text (cpuinfo env) of
              Inl e \<Rightarrow> UNKNOWN
            | Inr content \<Rightarrow>
                (case re_search (key_line_re ''model name'') content of
                   Some m \<Rightarrow> PStr (strip (match_group m 1))
                 | None \<Rightarrow> UNKNOWN))
      else UNKNOWN)"

text \<open>\<^verbatim>\<open>name.strip().lower()\<close> is outside the \<^verbatim>\<open>try\<close> block: for a true value that is
  no string the call of \<^verbatim>\<open>strip\<close> raises.\<close>

definition cpu_brand :: "env \<Rightarrow> pyval result" where
  "cpu_brand env =
     (let name = cpu_brand_name env
      in if truthy name
         then (case name of
                 PStr s \<Rightarrow>
                   (let normalized = lower (strip s)
                    in if normalized \<notin> GENERIC_CPU_NAMES then Inr name
                       else Inr (cpu_brand_fallback env))
               | PObj attrs \<Rightarrow>
                   (if map_of attrs ''strip'' = None then Inl AttributeError else Inl TypeError)
               | _ \<Rightarrow> Inl AttributeError)
         else Inr (cpu_brand_fallback env))"

definition cpu_architecture :: "env \<Rightarrow> pyval" where
  "cpu_architecture env =
     safe_call (\<lambda>_. bnd (platform_machine env) (\<lambda>m. Inr (if truthy m then m else UNKNOWN)))
       UNKNOWN"

definition cpu_count :: "env \<Rightarrow> bool \<Rightarrow> pyval" where
  "cpu_count env logical =
     (let v = safe_call (\<lambda>_. psutil_cpu_count env logical) PNone
      in if isinstance_int v then v else UNKNOWN)"

text \<open>
  \<^verbatim>\<open>round(x, ndigits)\<close>: an int is returned as it is (a bool as the int), a finite float is
  rounded correctly to \<open>ndigits\<close> decimals and then to the nearest float, a non-finite float
  is returned as it is, and any other value has no \<^verbatim>\<open>__round__\<close>.
\<close>

fun py_round :: "pyval \<Rightarrow> nat \<Rightarrow> pyval result" where
  "py_round (PBool b) nd = Inr (PInt (if b then 1 else 0))"
| "py_round (PInt n) nd = Inr (PInt n)"
| "py_round (PFloat (Fin q)) nd =
     (case fl (of_int (round_half_even (q * 10 ^ nd)) / 10 ^ nd) of
        Fin r \<Rightarrow> Inr (PFloat (Fin r))
      | _ \<Rightarrow> Inl OverflowError)"
| "py_round (PFloat f) nd = Inr (PFloat f)"
| "py_round _ nd = Inl TypeError"

text \<open>\<^verbatim>\<open>round(freq.x, 2) if freq.x is not None else UNKNOWN\<close>\<close>

definition freq_field :: "pyval \<Rightarrow> string \<Rightarrow> pyval result" where
  "freq_field freq name =
     bnd (getattr freq name) (\<lambda>v.
       if v \<noteq> PNone then bnd (getattr freq name) (\<lambda>v'. py_round v' 2) else Inr UNKNOWN)"

definition cpu_frequency :: "env \<Rightarrow> pyval result" where
  "cpu_frequency env =
     (let freq = safe_call (\<lambda>_. psutil_cpu_freq env) PNone
      in if \<not> truthy freq
         then Inr (PDict [(''current'', UNKNOWN), (''min'', UNKNOWN), (''max'', UNKNOWN)])
         else bnd (freq_field freq ''current'') (\<lambda>c.
              bnd (freq_field freq ''min'') (\<lambda>mn.
              bnd (freq_field freq ''max'') (\<lambda>mx.
              Inr (PDict [(''current'', c), (''min'', mn), (''max'', mx)])))))"

definition cpu_usage :: "env \<Rightarrow> pyval result" where
  "cpu_usage env =
     (let v = safe_call (\<lambda>_. psutil_cpu_percent env) PNone
      in if isinstance_int_float v then py_round v 1 else Inr UNKNOWN)"

definition cpu_features :: "env \<Rightarrow> pyval" where
  "cpu_features env =
     (if \<not> file_exists (cpuinfo env) then UNKNOWN
      else case read_text (cpuinfo env) of
             Inl e \<Rightarrow> UNKNOWN
           | Inr content \<Rightarrow>
               (let m = re_search (key_line_re ''flags'') content;
                    m' = (if m = None then re_search (key_line_re ''Features'') content else m)
                in case m' of
                     None \<Rightarrow> UNKNOWN
                   | Some gs \<Rightarrow>
                       (let features = map strip (filter (\<lambda>item. strip item \<noteq> [])
                                                    (split_ws (match_group gs 1)))
                        in if features \<noteq> [] then PList (map PStr features) else UNKNOWN)))"

text \<open>\<^verbatim>\<open>float(text)\<close> for the text of group 1 of the size pattern, digits with an optional
  fraction: the decimal value, correctly rounded.\<close>

definition nat_of_digits :: "string \<Rightarrow> nat" where
  "nat_of_digits ds = foldl (\<lambda>acc c. 10 * acc + digit_val c) 0 ds"

definition float_of_decimal :: "string \<Rightarrow> pyfloat" where
  "float_of_decimal s =
     (let ip = takeWhile is_digit s; fp = drop (Suc (length ip)) s
      in fl (of_nat (nat_of_digits ip) + of_nat (nat_of_digits fp) / 10 ^ length fp))"

definition multiplier :: "string \<Rightarrow> int" where
  "multiplier unit =
     (if unit = ''K'' then 1024 else if unit = ''M'' then 1024 ^ 2
      else if unit = ''G'' then 1024 ^ 3 else 1)"

definition parse_cache_size :: "string \<Rightarrow> int option result" where
  "parse_cache_size text =
     (case re_match cache_size_re (strip text) of
        None \<Rightarrow> Inr None
      | Some gs \<Rightarrow>
          (let v = float_of_decimal (match_group gs 1);
               unit = map upper_char (match_group gs 2)
           in bnd (float_of_int (multiplier unit)) (\<lambda>m.
              bnd (int_of_float (float_mul v m)) (\<lambda>n. Inr (Some n)))))"

text \<open>The loop of \<^verbatim>\<open>_cpu_cache_sizes\<close> over the index entries, with the two dicts
  \<^verbatim>\<open>best_sizes\<close> and \<^verbatim>\<open>best_labels\<close> as its state.\<close>

fun cache_loop ::
  "index_entry list \<Rightarrow> (string \<rightharpoonup> int) \<Rightarrow> (string \<rightharpoonup> string) \<Rightarrow> (string \<rightharpoonup> string) result"
where
  "cache_loop [] best_sizes best_labels = Inr best_labels"
| "cache_loop (idx # rest) best_sizes best_labels =
     (if \<not> file_exists (level_file idx) \<or> \<not> file_exists (size_file idx)
      then cache_loop rest best_sizes best_labels
      else case bnd (read_text (level_file idx)) (\<lambda>l.
                bnd (read_text (size_file idx)) (\<lambda>s. Inr (strip l, strip s))) of
             Inl e \<Rightarrow> cache_loop rest best_sizes best_labels
           | Inr (level, size_text) \<Rightarrow>
               (let level_key = ''L'' @ level
                in case parse_cache_size size_text of
                     Inl e \<Rightarrow> Inl e
                   | Inr None \<Rightarrow> cache_loop rest best_sizes best_labels
                   | Inr (Some size_bytes) \<Rightarrow>
                       (if (case best_sizes level_key of None \<Rightarrow> True | Some b \<Rightarrow> b < size_bytes)
                        then cache_loop rest (best_sizes(level_key \<mapsto> size_bytes))
                               (best_labels(level_key \<mapsto> size_text))
                        else cache_loop rest best_sizes best_labels)))"

definition label_or_unknown :: "(string \<rightharpoonup> string) \<Rightarrow> string \<Rightarrow> pyval" where
  "label_or_unknown best_labels k = (case best_labels k of None \<Rightarrow> UNKNOWN | Some l \<Rightarrow> PStr l)"

definition cpu_cache_sizes :: "env \<Rightarrow> pyval result" where
  "cpu_cache_sizes env =
     (case cache_dir env of
        None \<Rightarrow> Inr (PDict [(''L1'', UNKNOWN), (''L2'', UNKNOWN), (''L3'', UNKNOWN)])
      | Some entries \<Rightarrow>
          bnd (cache_loop entries Map.empty Map.empty) (\<lambda>best_labels.
            Inr (PDict [(''L1'', label_or_unknown best_labels ''L1''),
                        (''L2'', label_or_unknown best_labels ''L2''),
                        (''L3'', label_or_unknown best_labels ''L3'')])))"

definition get_cpu_info :: "env \<Rightarrow> pyval result" where
  "get_cpu_info env =
     bnd (cpu_brand env) (\<lambda>brand.
     bnd (cpu_frequency env) (\<lambda>frequency.
     bnd (cpu_usage env) (\<lambda>usage.
     bnd (cpu_cache_sizes env) (\<lambda>cache.
       Inr (PDict [(''brand'', brand),
                   (''architecture'', cpu_architecture env),
                   (''physical_cores'', cpu_count env False),
                   (''logical_processors'', cpu_count env True),
                   (''frequency_mhz'', frequency),
                   (''usage_percent'', usage),
                   (''features'', cpu_features env),
                   (''cache'', cache)])))))"

section \<open>The system collector of \<^verbatim>\<open>providers.py\<close>\<close>

text \<open>\<^verbatim>\<open>uname.field or platform.field() or UNKNOWN\<close>: the second probe is called only
  where the first value is false.\<close>

definition os_field :: "pyval \<Rightarrow> string \<Rightarrow> pyval result \<Rightarrow> pyval result" where
  "os_field uname name probe =
     bnd (getattr uname name) (\<lambda>a.
       if truthy a then Inr a
       else bnd probe (\<lambda>b. Inr (if truthy b then b else UNKNOWN)))"

text \<open>The uptime pair: \<^verbatim>\<open>max(0, int(time.time() - boot_time))\<close> and its text.\<close>

definition uptime_pair :: "env \<Rightarrow> (pyval \<times> pyval) result" where
  "uptime_pair env =
     (let boot_time = safe_call (\<lambda>_. psutil_boot_time env) PNone
      in if isinstance_int_float boot_time
         then bnd (to_float boot_time) (\<lambda>b.
              bnd (int_of_float (float_sub (Fin (time_time env)) b)) (\<lambda>d.
              let uptime_seconds = PInt (max 0 d)
              in bnd (format_duration uptime_seconds) (\<lambda>uptime_human.
                 Inr (uptime_seconds, uptime_human))))
         else Inr (UNKNOWN, UNKNOWN))"

text \<open>The memory quadruple, as the dict that \<^verbatim>\<open>get_system_info\<close> stores under
  \<^verbatim>\<open>memory\<close>.\<close>

definition memory_group :: "env \<Rightarrow> pyval result" where
  "memory_group env =
     (let mem_info = safe_call (\<lambda>_. psutil_virtual_memory env) PNone
      in if truthy mem_info \<and> hasattr mem_info ''total''
         then bnd (getattr mem_info ''total'') (\<lambda>total_bytes.
              bnd (getattr mem_info ''available'') (\<lambda>available_bytes.
              bnd (format_bytes total_bytes) (\<lambda>total_human.
              bnd (format_bytes available_bytes) (\<lambda>available_human.
                Inr (PDict [(''total_bytes'', total_bytes),
                            (''available_bytes'', available_bytes),
                            (''total_human'', total_human),
                            (''available_human'', available_human)])))))
         else Inr (PDict [(''total_bytes'', UNKNOWN),
                          (''available_bytes'', UNKNOWN),
                          (''total_human'', UNKNOWN),
                          (''available_human'', UNKNOWN)]))"

definition get_system_info :: "env \<Rightarrow> pyval result" where
  "get_system_info env =
     bnd (platform_uname env) (\<lambda>uname.
     bnd (os_field uname ''system'' (platform_system env)) (\<lambda>os_name.
     bnd (os_field uname ''release'' (platform_release env)) (\<lambda>os_release.
     bnd (os_field uname ''version'' (platform_version env)) (\<lambda>os_version.
     let hostname = safe_call (\<lambda>_. socket_gethostname env) UNKNOWN
     in bnd (uptime_pair env) (\<lambda>(uptime_seconds, uptime_human).
        bnd (memory_group env) (\<lambda>memory.
          Inr (PDict [(''os'', PDict [(''name'', os_name),
                                      (''release'', os_release),
                                      (''version'', os_version)]),
                      (''hostname'', hostname),
                      (''uptime_seconds'', uptime_seconds),
                      (''uptime_human'', uptime_human),
                      (''memory'', memory)])))))))"

text \<open>The snapshot that \<^verbatim>\<open>main\<close> assembles from the two collectors.\<close>

definition collect_snapshot :: "env \<Rightarrow> pyval result" where
  "collect_snapshot env =
     bnd (get_cpu_info env) (\<lambda>cpu.
     bnd (get_system_info env) (\<lambda>system.
       Inr (PDict [(''cpu'', cpu), (''system'', system)])))"

section \<open>Reading a duration back\<close>

text \<open>
  The reference for the round trip of \<^verbatim>\<open>format_duration\<close>: the two-digit rendering of a
  component, and a reader that takes the four components out of a duration text and
  recombines them into seconds.
\<close>

definition two_digits :: "int \<Rightarrow> string" where
  "two_digits i = [digit_char (nat i div 10), digit_char (nat i mod 10)]"

definition spec_parse_hms :: "string \<Rightarrow> (nat \<times> nat \<times> nat) option" where
  "spec_parse_hms s =
     (case s of
        [h1, h0, c1, m1, m0, c2, s1, s0] \<Rightarrow>
          if c1 = CHR '':'' \<and> c2 = CHR '':'' \<and> list_all is_digit [h1, h0, m1, m0, s1, s0]
          then Some (nat_of_digits [h1, h0], nat_of_digits [m1, m0], nat_of_digits [s1, s0])
          else None
      | _ \<Rightarrow> None)"

definition spec_parse_duration :: "string \<Rightarrow> (nat \<times> nat \<times> nat \<times> nat) option" where
  "spec_parse_duration s =
     (let ds = takeWhile is_digit s; r = drop (length ds) s
      in if take (length day_suffix + 1) r = day_suffix @ '' '' \<and> ds \<noteq> []
         then map_option (\<lambda>hms. (nat_of_digits ds, hms)) (spec_parse_hms (drop (length day_suffix + 1) r))
         else map_option (\<lambda>hms. (0, hms)) (spec_parse_hms s))"

definition spec_total_seconds :: "nat \<times> nat \<times> nat \<times> nat \<Rightarrow> int" where
  "spec_total_seconds c = (case c of (d, h, m, s) \<Rightarrow> int d * 86400 + int h * 3600 + int m * 60 + int s)"

section \<open>Some platforms\<close>

text \<open>
  \<open>env_sample\<close> is a Linux machine on which every probe answers. On \<open>env_unavailable\<close> every
  probe raises and neither the pseudo-file nor the cache directory exists. \<open>env_blank\<close> differs
  from it in the probes that \<^verbatim>\<open>get_system_info\<close> calls outside \<^verbatim>\<open>safe_call\<close>: they return
  empty texts instead of raising.
\<close>

definition sample_cpuinfo :: string where
  "sample_cpuinfo =
     ''processor : 0'' @ [newline] @
     ''model name : Example CPU X9'' @ [newline] @
     ''flags : fpu vme sse2'' @ [newline]"

definition env_sample :: env where
  "env_sample =
     \<lparr>platform_processor = Inr (PStr ''x86_64''),
      platform_uname = Inr (PObj [(''system'', PStr ''Linux''), (''node'', PStr ''box''),
                                  (''release'', PStr ''6.1.0''), (''version'', PStr ''#1 SMP''),
                                  (''machine'', PStr ''x86_64''), (''processor'', PStr ''x86_64'')]),
      platform_machine = Inr (PStr ''x86_64''),
      platform_system = Inr (PStr ''Linux''),
      platform_release = Inr (PStr ''6.1.0''),
      platform_version = Inr (PStr ''#1 SMP''),
      socket_gethostname = Inr (PStr ''box''),
      psutil_cpu_count = (\<lambda>logical. Inr (PInt (if logical then 8 else 4))),
      psutil_cpu_freq = Inr (PObj [(''current'', PFloat (Fin 2400)), (''min'', PFloat (Fin 800)),
                                   (''max'', PFloat (Fin 3600))]),
      psutil_cpu_percent = Inr (PFloat (Fin (25 / 2))),
      psutil_boot_time = Inr (PFloat (Fin 1700000000)),
      psutil_virtual_memory = Inr (PObj [(''total'', PInt 8589934592),
                                         (''available'', PInt 4294967296)]),
      time_time = 1700090061,
      cpuinfo = Content sample_cpuinfo,
      cache_dir = Some [\<lparr>level_file = Content (''1'' @ [newline]),
                          size_file = Content (''32K'' @ [newline])\<rparr>,
                        \<lparr>level_file = Content (''2'' @ [newline]),
                          size_file = Content (''256K'' @ [newline])\<rparr>,
                        \<lparr>level_file = Content (''2'' @ [newline]),
                          size_file = Content (''1M'' @ [newline])\<rparr>]\<rparr>"

definition env_unavailable :: env where
  "env_unavailable =
     \<lparr>platform_processor = Inl (ProbeError ''unavailable''),
      platform_uname = Inl (ProbeError ''unavailable''),
      platform_machine = Inl (ProbeError ''unavailable''),
      platform_system = Inl (ProbeError ''unavailable''),
      platform_release = Inl (ProbeError ''unavailable''),
      platform_version = Inl (ProbeError ''unavailable''),
      socket_gethostname = Inl (ProbeError ''unavailable''),
      psutil_cpu_count = (\<lambda>logical. Inl (ProbeError ''unavailable'')),
      psutil_cpu_freq = Inl (ProbeError ''unavailable''),
      psutil_cpu_percent = Inl (ProbeError ''unavailable''),
      psutil_boot_time = Inl (ProbeError ''unavailable''),
      psutil_virtual_memory = Inl (ProbeError ''unavailable''),
      time_time = 1700090061,
      cpuinfo = Missing,
      cache_dir = None\<rparr>"

definition blank_uname :: pyval where
  "blank_uname = PObj [(''system'', PStr []), (''node'', PStr []), (''release'', PStr []),
                       (''version'', PStr []), (''machine'', PStr []), (''processor'', PStr [])]"

definition env_blank :: env where
  "env_blank =
     env_unavailable\<lparr>platform_uname := Inr blank_uname,
                      platform_system := Inr (PStr []),
                      platform_release := Inr (PStr []),
                      platform_version := Inr (PStr [])\<rparr>"

definition sentinel_snapshot :: pyval where
  "sentinel_snapshot =
     PDict [(''cpu'', PDict [(''brand'', UNKNOWN),
                             (''architecture'', UNKNOWN),
                             (''physical_cores'', UNKNOWN),
                             (''logical_processors'', UNKNOWN),
                             (''frequency_mhz'', PDict [(''current'', UNKNOWN), (''min'', UNKNOWN),
                                                        (''max'', UNKNOWN)]),
                             (''usage_percent'', UNKNOWN),
                             (''features'', UNKNOWN),
                             (''cache'', PDict [(''L1'', UNKNOWN), (''L2'', UNKNOWN),
                                                (''L3'', UNKNOWN)])]),
            (''system'', PDict [(''os'', PDict [(''name'', UNKNOWN), (''release'', UNKNOWN),
                                                (''version'', UNKNOWN)]),
                                (''hostname'', UNKNOWN),
                                (''uptime_seconds'', UNKNOWN),
                                (''uptime_human'', UNKNOWN),
                                (''memory'', PDict [(''total_bytes'', UNKNOWN),
                                                    (''available_bytes'', UNKNOWN),
                                                    (''total_human'', UNKNOWN),
                                                    (''available_human'', UNKNOWN)])])]"

section \<open>Lines of the pseudo-file\<close>

text \<open>
  Notions for stating what the search of a \<^verbatim>\<open>key : value\<close> line finds. \<open>adv xs st\<close> is the
  position of the matcher after it has read \<open>xs\<close>. A position is at the start of a line if
  no text or a newline precedes it. \<open>key_absent key bef pre rest\<close> says that no line starting
  inside \<open>pre\<close> begins with \<open>key\<close>, where \<open>bef\<close> is the reversed text before \<open>pre\<close> and
  \<open>rest\<close> the text after it. \<open>key_line_parts\<close> describes a text whose first line beginning
  with \<open>key\<close> is \<open>key\<close>, white space, a colon, white space and a value \<open>v\<close> that runs to the
  end of the line.
\<close>

definition adv :: "string \<Rightarrow> mstate \<Rightarrow> mstate" where
  "adv xs st = st\<lparr>consumed := rev xs @ consumed st, remaining := drop (length xs) (remaining st)\<rparr>"

definition at_line_start :: "string \<Rightarrow> bool" where
  "at_line_start bef \<longleftrightarrow> bef = [] \<or> hd bef = newline"

fun key_absent :: "string \<Rightarrow> string \<Rightarrow> string \<Rightarrow> string \<Rightarrow> bool" where
  "key_absent key bef [] rest = True"
| "key_absent key bef (c # cs) rest =
     ((at_line_start bef \<longrightarrow> take (length key) (c # cs @ rest) \<noteq> key)
      \<and> key_absent key (c # bef) cs rest)"





section \<open>Unit labels\<close>


section \<open>Safe probe wrapper\<close>

text \<open>
  Claim C9. For every zero-argument operation and every fallback value, \<open>safe_call\<close> returns
  the operation's result when it returns normally, and the fallback whenever it raises.
\<close>

theorem safe_call_contract:
  "(func () = Inr v \<longrightarrow> safe_call func d = v) \<and> (func () = Inl e \<longrightarrow> safe_call func d = d)"
  by (simp add: safe_call_def)

theorem safe_call_contract_witness:
  "(\<lambda>_. Inr (PInt 4)) () = (Inr (PInt 4) :: pyval result)
   \<and> safe_call (\<lambda>_. Inr (PInt 4)) UNKNOWN = PInt 4
   \<and> (\<lambda>_. Inl OSError) () = (Inl OSError :: pyval result)
   \<and> safe_call (\<lambda>_. Inl OSError) UNKNOWN = UNKNOWN"
  using safe_call_contract [of "\<lambda>_. Inr (PInt 4)" "PInt 4" UNKNOWN OSError]
    safe_call_contract [of "\<lambda>_. Inl OSError" "PInt 4" UNKNOWN OSError]
  by simp

section \<open>Decimal text\<close>

lemma digit_char_is_digit: "d < 10 \<Longrightarrow> is_digit (digit_char d)"
  by (simp add: is_digit_def digit_char_def)


lemma digit_val_digit_char: "d < 10 \<Longrightarrow> digit_val (digit_char d) = d"
  by (simp add: digit_val_def digit_char_def)

lemma str_nat_digits: "c \<in> set (str_nat n) \<Longrightarrow> is_digit c"
proof (induction n arbitrary: c rule: str_nat.induct)
  case (1 n)
  show ?case
  proof (cases "n < 10")
    case True
    with "1.prems" show ?thesis
      by (simp add: str_nat.simps [of n] digit_char_is_digit)
  next
    case False
    with "1.prems" "1.IH" show ?thesis
      by (auto simp: str_nat.simps [of n] digit_char_is_digit)
  qed
qed

lemma str_nat_nonempty: "str_nat n \<noteq> []"
  by (subst str_nat.simps) simp

lemma nat_of_digits_snoc: "nat_of_digits (ds @ [c]) = 10 * nat_of_digits ds + digit_val c"
  by (simp add: nat_of_digits_def)

lemma nat_of_digits_str_nat: "nat_of_digits (str_nat n) = n"
proof (induction n rule: str_nat.induct)
  case (1 n)
  show ?case
  proof (cases "n < 10")
    case True
    then show ?thesis
      by (simp add: str_nat.simps [of n] nat_of_digits_def digit_val_digit_char)
  next
    case False
    with "1.IH" show ?thesis
      by (simp add: str_nat.simps [of n] nat_of_digits_snoc digit_val_digit_char)
  qed
qed

lemma str_nat_two_digits:
  assumes "10 \<le> n" "n < 100"
  shows "str_nat n = [digit_char (n div 10), digit_char (n mod 10)]"
proof -
  from assms have "n div 10 < 10" by arith
  with assms show ?thesis
    by (simp add: str_nat.simps [of n] str_nat.simps [of "n div 10"])
qed

lemma pad2_two_digits:
  assumes "0 \<le> i" "i < 100"
  shows "pad2 i = [digit_char (nat i div 10), digit_char (nat i mod 10)]"
proof (cases "i < 10")
  case True
  with assms have "nat i < 10" "nat i div 10 = 0" by simp_all
  moreover have "digit_char 0 = CHR ''0''"
    by (simp add: digit_char_def char_of_eq_iff)
  ultimately show ?thesis using True assms
    by (simp add: pad2_def str_int_def str_nat.simps [of "nat i"])
next
  case False
  with assms have "10 \<le> nat i" "nat i < 100" by simp_all
  with False assms show ?thesis
    by (simp add: pad2_def str_int_def str_nat_two_digits)
qed

lemma hms_two_digits:
  assumes "0 \<le> h" "h < 100" "0 \<le> m" "m < 100" "0 \<le> s" "s < 100"
  shows "hms h m s = two_digits h @ '':'' @ two_digits m @ '':'' @ two_digits s"
  using assms by (simp add: hms_def pad2_two_digits two_digits_def)

lemma nat_of_two_digits: "0 \<le> i \<Longrightarrow> i < 100 \<Longrightarrow> nat_of_digits (two_digits i) = nat i"
proof -
  assume a: "0 \<le> i" "i < 100"
  then have "nat i div 10 < 10" "nat i mod 10 < 10" by arith+
  then show ?thesis
    by (simp add: two_digits_def nat_of_digits_def digit_val_digit_char)
qed

lemma length_two_digits [simp]: "length (two_digits i) = 2"
  by (simp add: two_digits_def)

lemma two_digits_is_digit: "0 \<le> i \<Longrightarrow> i < 100 \<Longrightarrow> list_all is_digit (two_digits i)"
proof -
  assume a: "0 \<le> i" "i < 100"
  then have "nat i div 10 < 10" "nat i mod 10 < 10" by arith+
  then show ?thesis
    by (simp add: two_digits_def digit_char_is_digit)
qed

lemma spec_parse_hms_two_digits:
  assumes "0 \<le> h" "h < 100" "0 \<le> m" "m < 100" "0 \<le> s" "s < 100"
  shows "spec_parse_hms (two_digits h @ '':'' @ two_digits m @ '':'' @ two_digits s) = Some (nat h, nat m, nat s)"
proof -
  have d: "list_all is_digit (two_digits h)" "list_all is_digit (two_digits m)" "list_all is_digit (two_digits s)"
    using assms by (simp_all add: two_digits_is_digit)
  have n: "nat_of_digits (two_digits h) = nat h" "nat_of_digits (two_digits m) = nat m" "nat_of_digits (two_digits s) = nat s"
    using assms by (simp_all add: nat_of_two_digits)
  from d n show ?thesis
    by (simp add: spec_parse_hms_def two_digits_def)
qed

lemma colon_not_digit: "\<not> is_digit (CHR '':'')"
  by (simp add: is_digit_def)

lemma takeWhile_digits_hms:
  assumes "0 \<le> h" "h < 100"
  shows "takeWhile is_digit (two_digits h @ CHR '':'' # rest) = two_digits h"
proof -
  have "list_all is_digit (two_digits h)" using assms by (rule two_digits_is_digit)
  then have "\<forall>c \<in> set (two_digits h). is_digit c" by (simp add: list_all_iff)
  then show ?thesis
    by (simp add: takeWhile_append2 colon_not_digit)
qed

lemma takeWhile_digits_days:
  "takeWhile is_digit (str_nat d @ day_suffix @ rest) = str_nat d"
proof -
  have "\<forall>c \<in> set (str_nat d). is_digit c" by (simp add: str_nat_digits)
  moreover have "\<not> is_digit (hd day_suffix)" by (simp add: day_suffix_def is_digit_def)
  ultimately show ?thesis
    by (simp add: takeWhile_append2 day_suffix_def)
qed

lemma spec_parse_duration_days:
  assumes "0 \<le> h" "h < 100" "0 \<le> m" "m < 100" "0 \<le> s" "s < 100"
  shows "spec_parse_duration (str_nat d @ day_suffix @ '' '' @ two_digits h @ '':'' @ two_digits m @ '':'' @ two_digits s)
         = Some (d, nat h, nat m, nat s)"
proof -
  let ?t = "two_digits h @ '':'' @ two_digits m @ '':'' @ two_digits s"
  have tw: "takeWhile is_digit (str_nat d @ day_suffix @ '' '' @ ?t) = str_nat d"
    by (rule takeWhile_digits_days)
  have dr: "drop (length (str_nat d)) (str_nat d @ day_suffix @ '' '' @ ?t) = day_suffix @ '' '' @ ?t"
    by simp
  have tk: "take (length day_suffix + 1) (day_suffix @ '' '' @ ?t) = day_suffix @ '' ''"
    by simp
  have dp: "drop (length day_suffix + 1) (day_suffix @ '' '' @ ?t) = ?t"
    by simp
  show ?thesis
    unfolding spec_parse_duration_def Let_def tw dr tk dp
    using spec_parse_hms_two_digits [OF assms]
    by (simp add: str_nat_nonempty nat_of_digits_str_nat)
qed

lemma spec_parse_duration_no_days:
  assumes "0 \<le> h" "h < 100" "0 \<le> m" "m < 100" "0 \<le> s" "s < 100"
  shows "spec_parse_duration (two_digits h @ '':'' @ two_digits m @ '':'' @ two_digits s)
         = Some (0, nat h, nat m, nat s)"
proof -
  let ?t = "two_digits h @ '':'' @ two_digits m @ '':'' @ two_digits s"
  have tw: "takeWhile is_digit ?t = two_digits h"
    using takeWhile_digits_hms [OF assms(1,2)] by simp
  have dr: "drop (length (two_digits h)) ?t = '':'' @ two_digits m @ '':'' @ two_digits s"
    by simp
  have tk: "take (length day_suffix + 1) ('':'' @ two_digits m @ '':'' @ two_digits s) \<noteq> day_suffix @ '' ''"
    by (simp add: day_suffix_def)
  show ?thesis
    unfolding spec_parse_duration_def Let_def tw dr
    using spec_parse_hms_two_digits [OF assms] tk by simp
qed


lemma format_duration_sentinel:
  "lt_zero v \<or> \<not> isinstance_int_float v \<Longrightarrow> format_duration v = Inr UNKNOWN"
  by (auto simp: format_duration_def)

section \<open>Duration formatter\<close>

lemma format_duration_components:
  fixes s :: int
  assumes s: "0 \<le> s"
    and dd: "d = s div 86400" and hh: "h = (s mod 86400) div 3600"
    and mm: "m = (s mod 3600) div 60" and cc: "c = s mod 60"
    and clock: "clock = two_digits h @ '':'' @ two_digits m @ '':'' @ two_digits c"
    and tx: "txt = (if 0 < d then str_int d @ day_suffix @ '' '' @ clock else clock)"
  shows "format_duration (PInt s) = Inr (PStr txt)"
    and "spec_parse_duration txt = Some (nat d, nat h, nat m, nat c)"
    and "spec_total_seconds (nat d, nat h, nat m, nat c) = s"
proof -
  have h: "0 \<le> h" "h < 100"
    unfolding hh by (simp_all add: pos_imp_zdiv_nonneg_iff)
  have m: "0 \<le> m" "m < 100"
    unfolding mm by (simp_all add: pos_imp_zdiv_nonneg_iff)
  have c: "0 \<le> c" "c < 100"
    unfolding cc by simp_all
  have d: "0 \<le> d"
    unfolding dd using s by (simp add: pos_imp_zdiv_nonneg_iff)
  have hm: "hms h m c = clock"
    unfolding clock using h m c by (rule hms_two_digits)
  have m1: "s mod 86400 mod 3600 = s mod 3600"
    by (rule mod_mod_cancel) simp
  have m2: "s mod 3600 mod 60 = s mod 60"
    by (rule mod_mod_cancel) simp
  have fd: "format_duration (PInt s)
            = Inr (PStr (if 0 < d then str_int d @ day_suffix @ '' '' @ hms h m c else hms h m c))"
    using s by (simp add: format_duration_def Let_def m1 m2 dd hh mm cc)
  show "format_duration (PInt s) = Inr (PStr txt)"
    unfolding fd hm tx ..
  show "spec_parse_duration txt = Some (nat d, nat h, nat m, nat c)"
  proof (cases "0 < d")
    case True
    then have "str_int d = str_nat (nat d)"
      by (simp add: str_int_def)
    with True show ?thesis
      unfolding tx clock using spec_parse_duration_days [OF h m c, of "nat d"] by simp
  next
    case False
    then show ?thesis
      unfolding tx clock using spec_parse_duration_no_days [OF h m c] d by simp
  qed
  have "s = d * 86400 + s mod 86400" unfolding dd by simp
  also have "s mod 86400 = h * 3600 + s mod 86400 mod 3600" unfolding hh by simp
  also have "s mod 86400 mod 3600 = s mod 3600" by (rule m1)
  also have "s mod 3600 = m * 60 + s mod 3600 mod 60" unfolding mm by simp
  also have "s mod 3600 mod 60 = c" unfolding cc by (rule m2)
  finally have "s = d * 86400 + (h * 3600 + (m * 60 + c))" .
  then show "spec_total_seconds (nat d, nat h, nat m, nat c) = s"
    using d h m c by (simp add: spec_total_seconds_def)
qed


text \<open>
  Claim C6. For every non-negative integer \<open>s\<close>, \<open>format_duration\<close> renders
  \<open>days = s div 86400\<close>, \<open>hours = (s mod 86400) div 3600\<close>, \<open>minutes = (s mod 3600) div 60\<close> and
  \<open>seconds = s mod 60\<close> as the days with the day suffix, a space and the two-digit clock when
  \<open>days > 0\<close>, and as the two-digit clock alone otherwise; reading the four components back
  out of the text and recombining them gives \<open>s\<close> again; a negative input or one that is
  neither an int nor a float gives the sentinel.
\<close>

theorem format_duration_roundtrip:
  "(0 \<le> s \<longrightarrow>
     (let days = s div 86400; hours = (s mod 86400) div 3600;
          minutes = (s mod 3600) div 60; seconds = s mod 60;
          clock = two_digits hours @ '':'' @ two_digits minutes @ '':'' @ two_digits seconds;
          txt = (if 0 < days then str_int days @ day_suffix @ '' '' @ clock else clock)
      in format_duration (PInt s) = Inr (PStr txt)
         \<and> spec_parse_duration txt = Some (nat days, nat hours, nat minutes, nat seconds)
         \<and> spec_total_seconds (nat days, nat hours, nat minutes, nat seconds) = s))
   \<and> (lt_zero v \<or> \<not> isinstance_int_float v \<longrightarrow> format_duration v = Inr UNKNOWN)"
  unfolding Let_def
  using format_duration_components [OF _ refl refl refl refl refl refl, of s]
    format_duration_sentinel [of v]
  by blast

theorem format_duration_roundtrip_witness:
  "(0::int) \<le> 90061
   \<and> format_duration (PInt 90061) = Inr (PStr (''1'' @ day_suffix @ '' 01:01:01''))
   \<and> spec_parse_duration (''1'' @ day_suffix @ '' 01:01:01'') = Some (1, 1, 1, 1)
   \<and> spec_total_seconds (1, 1, 1, 1) = 90061
   \<and> lt_zero (PInt (- 5)) \<and> format_duration (PInt (- 5)) = Inr UNKNOWN
   \<and> \<not> isinstance_int_float (PStr ''soon'') \<and> format_duration (PStr ''soon'') = Inr UNKNOWN"
proof -
  have e: "str_int 1 = ''1''" "two_digits 1 = ''01''"
    by code_simp+
  show ?thesis
    using format_duration_roundtrip [of 90061 "PInt (- 5)"]
      format_duration_roundtrip [of 90061 "PStr ''soon''"]
    by (simp add: Let_def e)
qed

section \<open>Rounding to binary64\<close>

lemma powi2_less_iff: "(2::rat) powi m < 2 powi n \<longleftrightarrow> m < n"
proof
  assume "(2::rat) powi m < 2 powi n"
  show "m < n"
  proof (rule ccontr)
    assume "\<not> m < n"
    then have "n \<le> m" by simp
    then have "(2::rat) powi n \<le> 2 powi m" by (rule power_int_increasing) simp
    with \<open>(2::rat) powi m < 2 powi n\<close> show False by simp
  qed
next
  assume "m < n"
  then show "(2::rat) powi m < 2 powi n" by (rule power_int_strict_increasing) simp
qed


lemma floor_log2_sandwich:
  assumes "0 < q"
  shows "2 powi (bitlen (fst (quotient_of q)) - bitlen (snd (quotient_of q)) - 1) \<le> q"
    and "q < 2 powi (bitlen (fst (quotient_of q)) - bitlen (snd (quotient_of q)) + 1)"
proof -
  obtain a b where ab: "quotient_of q = (a, b)" by (cases "quotient_of q")
  then have b: "0 < b" by (rule quotient_of_denom_pos)
  from ab have q: "q = of_int a / of_int b" by (rule quotient_of_div)
  with assms b have a: "0 < a" by (simp add: zero_less_divide_iff)
  let ?la = "bitlen a" and ?lb = "bitlen b"
  from bitlen_bounds [OF a] have a1: "2 ^ nat (?la - 1) \<le> a" and a2: "a < 2 ^ nat ?la" by simp_all
  from bitlen_bounds [OF b] have b1: "2 ^ nat (?lb - 1) \<le> b" and b2: "b < 2 ^ nat ?lb" by simp_all
  have la: "1 \<le> ?la" using a a2 by (cases "0 < ?la") auto
  have lb: "1 \<le> ?lb" using b b2 by (cases "0 < ?lb") auto
  have ra1: "(2::rat) powi (?la - 1) \<le> of_int a"
  proof -
    have "(2::rat) powi (?la - 1) = of_int (2 ^ nat (?la - 1))"
      using la by (simp add: power_int_nonneg_exp)
    also have "\<dots> \<le> of_int a" using a1 by (simp only: of_int_le_iff)
    finally show ?thesis .
  qed
  have ra2: "of_int a < (2::rat) powi ?la"
  proof -
    have "of_int a < (of_int (2 ^ nat ?la) :: rat)" using a2 by (simp only: of_int_less_iff)
    also have "\<dots> = 2 powi ?la" using la by (simp add: power_int_nonneg_exp)
    finally show ?thesis .
  qed
  have rb1: "(2::rat) powi (?lb - 1) \<le> of_int b"
  proof -
    have "(2::rat) powi (?lb - 1) = of_int (2 ^ nat (?lb - 1))"
      using lb by (simp add: power_int_nonneg_exp)
    also have "\<dots> \<le> of_int b" using b1 by (simp only: of_int_le_iff)
    finally show ?thesis .
  qed
  have rb2: "of_int b < (2::rat) powi ?lb"
  proof -
    have "of_int b < (of_int (2 ^ nat ?lb) :: rat)" using b2 by (simp only: of_int_less_iff)
    also have "\<dots> = 2 powi ?lb" using lb by (simp add: power_int_nonneg_exp)
    finally show ?thesis .
  qed
  have bpos: "(0::rat) < of_int b" using b by simp
  have apos: "(0::rat) < of_int a" using a by simp
  have "(2::rat) powi (?la - ?lb - 1) = 2 powi (?la - 1) / 2 powi ?lb"
    by (simp add: power_int_diff)
  also have "\<dots> \<le> of_int a / 2 powi ?lb"
    using ra1 by (simp add: divide_right_mono)
  also have "\<dots> \<le> of_int a / of_int b"
    using rb2 apos bpos by (simp add: frac_le)
  finally have lower: "(2::rat) powi (?la - ?lb - 1) \<le> of_int a / of_int b" .
  show "2 powi (bitlen (fst (quotient_of q)) - bitlen (snd (quotient_of q)) - 1) \<le> q"
    unfolding ab fst_conv snd_conv using lower unfolding q .
  have "of_int a / of_int b < (2::rat) powi ?la / of_int b"
    using ra2 bpos by (simp add: divide_strict_right_mono)
  also have "\<dots> \<le> 2 powi ?la / 2 powi (?lb - 1)"
    using rb1 by (simp add: frac_le)
  also have "\<dots> = 2 powi (?la - ?lb + 1)"
    by (simp add: power_int_diff [symmetric] algebra_simps)
  finally have upper: "of_int a / of_int b < (2::rat) powi (?la - ?lb + 1)" .
  show "q < 2 powi (bitlen (fst (quotient_of q)) - bitlen (snd (quotient_of q)) + 1)"
    unfolding ab fst_conv snd_conv using upper unfolding q .
qed

lemma floor_log2_bounds:
  assumes "0 < q"
  shows "2 powi (floor_log2 q) \<le> q" and "q < 2 powi (floor_log2 q + 1)"
  using floor_log2_sandwich [OF assms]
  by (auto simp: floor_log2_def Let_def not_le)

lemma floor_log2_unique:
  assumes "2 powi e \<le> q" and "q < 2 powi (e + 1)"
  shows "floor_log2 q = e"
proof -
  have q: "0 < q"
    using assms(1) by (rule less_le_trans [rotated]) simp
  let ?f = "floor_log2 q"
  have "(2::rat) powi ?f < 2 powi (e + 1)"
    using floor_log2_bounds(1) [OF q] assms(2) by (rule le_less_trans)
  then have 1: "?f < e + 1"
    by (simp only: powi2_less_iff)
  have "(2::rat) powi e < 2 powi (?f + 1)"
    using assms(1) floor_log2_bounds(2) [OF q] by (rule le_less_trans)
  then have 2: "e < ?f + 1"
    by (simp only: powi2_less_iff)
  from 1 2 show ?thesis by simp
qed


lemma round_half_even_of_int [simp]: "round_half_even (of_int n) = n"
  by (simp add: round_half_even_def)




lemma fl_representable:
  assumes m: "\<bar>m\<bar> < 2 ^ 53" and e: "- 1074 \<le> e"
    and x: "\<bar>of_int m * 2 powi e\<bar> < overflow_threshold"
  shows "fl (of_int m * 2 powi e) = Fin (of_int m * 2 powi e)"
proof (cases "m = 0")
  case True
  then show ?thesis by (simp add: fl_def)
next
  case False
  define x :: rat where "x = of_int m * 2 powi e"
  define E where "E = max (floor_log2 \<bar>x\<bar>) (- 1022)"
  define u :: rat where "u = 2 powi (E - 52)"
  have x0: "x \<noteq> 0" using False by (simp add: x_def)
  then have ax: "0 < \<bar>x\<bar>" by simp
  have "\<bar>x\<bar> = of_int \<bar>m\<bar> * 2 powi e"
    by (simp add: x_def abs_mult)
  also have "\<dots> < of_int (2 ^ 53) * 2 powi e"
    using m by (intro mult_strict_right_mono) (simp_all only: of_int_less_iff zero_less_power_int zero_less_numeral)
  also have "\<dots> = 2 powi (e + 53)"
    by (simp add: power_int_add)
  finally have "\<bar>x\<bar> < 2 powi (e + 53)" .
  with floor_log2_bounds(1) [OF ax] have "(2::rat) powi (floor_log2 \<bar>x\<bar>) < 2 powi (e + 53)"
    by (rule le_less_trans)
  then have "floor_log2 \<bar>x\<bar> < e + 53" by (simp only: powi2_less_iff)
  with e have k: "0 \<le> e - (E - 52)" by (simp add: E_def)
  define k where "k = nat (e - (E - 52))"
  have "(2::rat) powi e = 2 powi ((E - 52) + (e - (E - 52)))"
    by simp
  also have "\<dots> = u * 2 powi (e - (E - 52))"
    unfolding u_def by (rule power_int_add) simp
  also have "(2::rat) powi (e - (E - 52)) = 2 ^ k"
    using k by (simp add: k_def power_int_nonneg_exp)
  finally have pe: "(2::rat) powi e = u * 2 ^ k" .
  have upos: "0 < u" by (simp add: u_def)
  have "x / u = of_int m * 2 ^ k"
    using upos by (simp add: x_def pe)
  also have "\<dots> = of_int (m * 2 ^ k)" by simp
  finally have q: "x / u = of_int (m * 2 ^ k)" .
  have r: "of_int (round_half_even (x / u)) * u = x"
    unfolding q round_half_even_of_int by (simp add: x_def pe)
  from x have "\<not> overflow_threshold \<le> x" "\<not> x \<le> - overflow_threshold"
    by (simp_all add: abs_less_iff x_def)
  with x0 r have "fl x = Fin x"
    by (simp add: fl_def Let_def E_def [symmetric] u_def [symmetric])
  then show ?thesis by (simp only: x_def)
qed



lemma overflow_threshold_powi: "overflow_threshold = 2 powi 1024"
  by (simp only: overflow_threshold_def power_int_numeral)


lemma below_threshold:
  assumes "\<bar>x\<bar> \<le> 2 powi n" and "n < 1024"
  shows "\<bar>x\<bar> < overflow_threshold"
proof -
  have "(2::rat) powi n < 2 powi 1024"
    using assms(2) by (simp only: powi2_less_iff)
  with assms(1) show ?thesis
    unfolding overflow_threshold_powi by (rule le_less_trans)
qed

lemma fl_eval:
  assumes lo: "2 powi e \<le> \<bar>q\<bar>" and hi: "\<bar>q\<bar> < 2 powi (e + 1)" and e: "- 1022 \<le> e"
    and m: "round_half_even (q / 2 powi (e - 52)) = m"
    and r: "\<bar>of_int m * 2 powi (e - 52)\<bar> < overflow_threshold"
  shows "fl q = Fin (of_int m * 2 powi (e - 52))"
proof -
  have f: "floor_log2 \<bar>q\<bar> = e"
    using lo hi by (rule floor_log2_unique)
  have "0 < \<bar>q\<bar>"
    using lo by (rule less_le_trans [rotated]) simp
  then have q0: "q \<noteq> 0" by simp
  from e have mx: "max e (- 1022) = e" by simp
  from r have "\<not> overflow_threshold \<le> of_int m * 2 powi (e - 52)"
    "\<not> of_int m * 2 powi (e - 52) \<le> - overflow_threshold"
    by (simp_all add: abs_less_iff)
  with q0 show ?thesis
    by (simp add: fl_def Let_def f mx m)
qed




lemma binary64_int:
  assumes "\<bar>n\<bar> < 2 ^ 53"
  shows "fl (of_int n) = Fin (of_int n)"
proof -
  have "\<bar>of_int n :: rat\<bar> = of_int \<bar>n\<bar>" by simp
  also have "\<dots> \<le> of_int (2 ^ 53)" using assms by (simp only: of_int_le_iff)
  also have "\<dots> = 2 powi 53" by simp
  finally have "\<bar>of_int n :: rat\<bar> < overflow_threshold"
    by (rule below_threshold) simp
  then have "\<bar>of_int n * 2 powi 0 :: rat\<bar> < overflow_threshold" by simp
  with assms have "fl (of_int n * 2 powi 0) = Fin (of_int n * 2 powi 0)"
    by (intro fl_representable) simp_all
  then show ?thesis by simp
qed



section \<open>The collectors on a failing platform\<close>

lemma format_duration_returns:
  assumes "0 \<le> n"
  shows "\<exists>t. format_duration (PInt n) = Inr (PStr t)"
  using format_duration_components(1) [OF assms refl refl refl refl refl refl] by blast

text \<open>
  Where the probes outside \<^verbatim>\<open>safe_call\<close> return empty texts and every other probe raises,
  the snapshot has every key and the sentinel in every leaf.
\<close>

lemma snapshot_blank: "collect_snapshot env_blank = Inr sentinel_snapshot"
  by (simp add: collect_snapshot_def get_system_info_def uptime_pair_def memory_group_def os_field_def
       get_cpu_info_def cpu_brand_def cpu_brand_name_def cpu_brand_fallback_def
      cpu_architecture_def cpu_count_def cpu_frequency_def cpu_usage_def cpu_features_def
      cpu_cache_sizes_def safe_call_def bnd_def env_unavailable_def env_blank_def blank_uname_def
      sentinel_snapshot_def)

text \<open>
  Claim C1 says that \<^verbatim>\<open>get_cpu_info\<close> and \<^verbatim>\<open>get_system_info\<close> return in every probe
  environment, each probe being free to raise, and that the snapshot of the platform on which
  every probe fails has all its keys and the sentinel in every leaf. The code calls
  \<^verbatim>\<open>platform.uname()\<close> in \<^verbatim>\<open>get_system_info\<close> outside \<^verbatim>\<open>safe_call\<close> and outside any
  \<^verbatim>\<open>try\<close>: on the platform where every probe raises, the CPU record is the all-sentinel
  record, but \<^verbatim>\<open>get_system_info\<close> raises the exception of that probe and no snapshot is
  assembled.
\<close>

theorem system_info_raises_with_uname:
  "get_cpu_info env_unavailable =
     Inr (PDict [(''brand'', UNKNOWN), (''architecture'', UNKNOWN),
                 (''physical_cores'', UNKNOWN), (''logical_processors'', UNKNOWN),
                 (''frequency_mhz'',
                    PDict [(''current'', UNKNOWN), (''min'', UNKNOWN), (''max'', UNKNOWN)]),
                 (''usage_percent'', UNKNOWN), (''features'', UNKNOWN),
                 (''cache'', PDict [(''L1'', UNKNOWN), (''L2'', UNKNOWN), (''L3'', UNKNOWN)])])
   \<and> get_system_info env_unavailable = Inl (ProbeError ''unavailable'')
   \<and> collect_snapshot env_unavailable = Inl (ProbeError ''unavailable'')"
  by (simp add: collect_snapshot_def get_system_info_def
      get_cpu_info_def cpu_brand_def cpu_brand_name_def cpu_brand_fallback_def
      cpu_architecture_def cpu_count_def cpu_frequency_def cpu_usage_def cpu_features_def
      cpu_cache_sizes_def safe_call_def bnd_def env_unavailable_def)

section \<open>The memory group\<close>

text \<open>Whenever the memory group is built, it is either the all-sentinel quadruple or the two
  figures of the probe with the texts that \<open>format_bytes\<close> gives for them.\<close>

lemma memory_group_cases:
  assumes "memory_group env = Inr d"
  shows "d = PDict [(''total_bytes'', UNKNOWN), (''available_bytes'', UNKNOWN),
                    (''total_human'', UNKNOWN), (''available_human'', UNKNOWN)]
         \<or> (\<exists>m t a th ah. psutil_virtual_memory env = Inr m
               \<and> getattr m ''total'' = Inr t \<and> getattr m ''available'' = Inr a
               \<and> format_bytes t = Inr th \<and> format_bytes a = Inr ah
               \<and> d = PDict [(''total_bytes'', t), (''available_bytes'', a),
                             (''total_human'', th), (''available_human'', ah)])"
  using assms
  by (auto simp: memory_group_def safe_call_def bnd_def Let_def split: sum.splits if_splits)

lemma sample_uptime:
  "\<exists>t. uptime_pair (env_sample\<lparr>psutil_virtual_memory := m\<rparr>) = Inr (PInt 90061, PStr t)"
proof -
  have "fl (of_int 90061) = Fin (of_int 90061)"
    by (rule binary64_int) simp
  then have f: "fl 90061 = Fin 90061" by simp
  obtain t where "format_duration (PInt 90061) = Inr (PStr t)"
    using format_duration_returns [of 90061] by auto
  then show ?thesis
    by (simp add: uptime_pair_def env_sample_def safe_call_def bnd_def float_sub_def f)
qed

text \<open>
  Claim C2 says that for every outcome of the virtual-memory probe the four memory fields
  are set together, and that a probe result that does not expose both figures leaves all four
  at the sentinel without raising. The code tests \<^verbatim>\<open>hasattr(mem_info, "total")\<close> only: for a
  result with a \<^verbatim>\<open>total\<close> and no \<^verbatim>\<open>available\<close>, reading \<^verbatim>\<open>mem_info.available\<close> raises
  \<^verbatim>\<open>AttributeError\<close>, and so does \<^verbatim>\<open>get_system_info\<close>.
\<close>

theorem memory_total_only_raises:
  "memory_group (env_sample\<lparr>psutil_virtual_memory := Inr (PObj [(''total'', PInt 8589934592)])\<rparr>)
     = Inl AttributeError
   \<and> get_system_info
         (env_sample\<lparr>psutil_virtual_memory := Inr (PObj [(''total'', PInt 8589934592)])\<rparr>)
     = Inl AttributeError"
proof -
  let ?env = "env_sample\<lparr>psutil_virtual_memory := Inr (PObj [(''total'', PInt 8589934592)])\<rparr>"
  have m: "memory_group ?env = Inl AttributeError"
    by (simp add: memory_group_def safe_call_def bnd_def)
  obtain t where u: "uptime_pair ?env = Inr (PInt 90061, PStr t)"
    using sample_uptime by blast
  have "get_system_info ?env = Inl AttributeError"
    unfolding get_system_info_def m u
    by (simp add: os_field_def bnd_def env_sample_def)
  with m show ?thesis by simp
qed

section \<open>The uptime pair\<close>

text \<open>Where the boot-time probe raises or returns a value that is neither an int nor a
  float, both fields are the sentinel; and whenever the pair is built from a number, the
  seconds are a non-negative int and the text is their duration text.\<close>

lemma uptime_pair_sentinel:
  assumes "\<not> isinstance_int_float (safe_call (\<lambda>_. psutil_boot_time env) PNone)"
  shows "uptime_pair env = Inr (UNKNOWN, UNKNOWN)"
  using assms by (simp add: uptime_pair_def)

lemma uptime_pair_number:
  assumes "psutil_boot_time env = Inr b" and "isinstance_int_float b"
    and "to_float b = Inr (Fin x)" and "float_sub (Fin (time_time env)) (Fin x) = Fin y"
  shows "\<exists>t. uptime_pair env = Inr (PInt (max 0 (if 0 \<le> y then \<lfloor>y\<rfloor> else \<lceil>y\<rceil>)), t)
           \<and> format_duration (PInt (max 0 (if 0 \<le> y then \<lfloor>y\<rfloor> else \<lceil>y\<rceil>))) = Inr t"
proof -
  let ?n = "max 0 (if 0 \<le> y then \<lfloor>y\<rfloor> else \<lceil>y\<rceil>)"
  have "0 \<le> ?n" by simp
  then obtain t where f: "format_duration (PInt ?n) = Inr t"
    using format_duration_components(1) [OF _ refl refl refl refl refl refl, of ?n] by blast
  with assms have "uptime_pair env = Inr (PInt ?n, t)"
    by (simp add: uptime_pair_def safe_call_def bnd_def)
  with f show ?thesis by blast
qed

text \<open>
  Claim C7 says that whenever the boot-time probe returns a number, \<^verbatim>\<open>uptime_seconds\<close> is
  \<^verbatim>\<open>max(0, current_time - boot_time)\<close> truncated to an int and \<^verbatim>\<open>uptime_human\<close> is its
  duration text. For the float infinity, which passes the \<^verbatim>\<open>isinstance\<close> test, the
  difference is minus infinity and \<^verbatim>\<open>int\<close> of it raises \<^verbatim>\<open>OverflowError\<close>: the pair is not
  built and \<^verbatim>\<open>get_system_info\<close> raises.
\<close>

theorem uptime_raises_on_infinite_boot_time:
  "isinstance_int_float (PFloat PInf)
   \<and> uptime_pair (env_sample\<lparr>psutil_boot_time := Inr (PFloat PInf)\<rparr>) = Inl OverflowError
   \<and> get_system_info (env_sample\<lparr>psutil_boot_time := Inr (PFloat PInf)\<rparr>) = Inl OverflowError"
proof -
  let ?env = "env_sample\<lparr>psutil_boot_time := Inr (PFloat PInf)\<rparr>"
  have u: "uptime_pair ?env = Inl OverflowError"
    by (simp add: uptime_pair_def safe_call_def bnd_def float_sub_def)
  have "get_system_info ?env = Inl OverflowError"
    unfolding get_system_info_def u
    by (simp add: os_field_def bnd_def env_sample_def)
  with u show ?thesis by simp
qed

section \<open>Byte-size formatter\<close>


















section \<open>The matcher on a key line\<close>

lemma adv_Nil [simp]: "adv [] st = st"
  by (simp add: adv_def)


lemma adv_fields [simp]:
  "consumed (adv xs st) = rev xs @ consumed st"
  "groups (adv xs st) = groups st"
  by (simp_all add: adv_def)

lemma remaining_adv: "remaining st = xs @ rest \<Longrightarrow> remaining (adv xs st) = rest"
  by (simp add: adv_def)







lemma ms_Cat_head:
  assumes "ms r1 st = x # xs" and "ms r2 x = y # ys"
  shows "\<exists>zs. ms (Cat r1 r2) st = y # zs"
  using assms by simp




lemma newline_is_space: "is_space newline"
  by (simp add: is_space_def newline_def)










lemma key_absent_append:
  "key_absent key bef (xs @ ys) rest
   \<longleftrightarrow> key_absent key bef xs (ys @ rest) \<and> key_absent key (rev xs @ bef) ys rest"
  by (induction xs arbitrary: bef) auto












section \<open>Feature flags\<close>



section \<open>Brand resolution\<close>




end
